theory Spec2Isabelle
  imports Complex_Main
begin

section \<open>Water rendering: shaders, constant block, frame and update\<close>

text \<open>
  A shallow embedding of the water demo: the HLSL shaders \<^verbatim>\<open>WaterSurface_vs\<close> and
  \<^verbatim>\<open>RefractedPixelLighting_ps\<close> with the constants of \<^verbatim>\<open>Common.hlsli\<close>, the constant
  block \<^verbatim>\<open>PerFrameConstants\<close> as C++ and HLSL declare it, and the functions
  \<^verbatim>\<open>RenderSceneFromCamera\<close> and \<^verbatim>\<open>UpdateScene\<close> of \<^verbatim>\<open>Scene.cpp\<close>.

  Numbers. A \<^verbatim>\<open>float\<close> is modelled by the real number it denotes; an infinity or NaN
  is no real number, and where the mirroring of the camera can produce one that result
  is \<open>None\<close> (\<open>reflect_checked\<close>). Shader arithmetic is written in exact real arithmetic: the shading
  language leaves the last bit of a result to the device. On the C++
  side a sum, a difference or a product is rounded to binary32 (\<open>fadd\<close>, \<open>fsub\<close>, \<open>fmul\<close>
  below); a product with \<open>2\<close> or \<open>-1\<close> only changes the exponent or the sign of a
  binary32 number and is written without rounding.
\<close>

subsection \<open>HLSL vectors and intrinsics\<close>

record float2 =
  x :: real
  y :: real

record float3 = float2 +
  z :: real

record float4 = float3 +
  w :: real

text \<open>\<^verbatim>\<open>float4x4\<close>, by rows; \<^verbatim>\<open>mul(M, v)\<close> takes \<open>v\<close> as a column vector.\<close>

record float4x4 =
  row0 :: float4
  row1 :: float4
  row2 :: float4
  row3 :: float4

definition dot4 :: "float4 \<Rightarrow> float4 \<Rightarrow> real" where
  "dot4 a b = x a * x b + y a * y b + z a * z b + w a * w b"

definition mul :: "float4x4 \<Rightarrow> float4 \<Rightarrow> float4" where
  "mul M v = \<lparr>x = dot4 (row0 M) v, y = dot4 (row1 M) v, z = dot4 (row2 M) v, w = dot4 (row3 M) v\<rparr>"

text \<open>\<^verbatim>\<open>a + b\<close>, \<^verbatim>\<open>v * s\<close>, \<^verbatim>\<open>s * v\<close> and \<^verbatim>\<open>a / b\<close> on \<^verbatim>\<open>float2\<close>, component by component.\<close>

definition add2 :: "float2 \<Rightarrow> float2 \<Rightarrow> float2" where
  "add2 a b = \<lparr>x = x a + x b, y = y a + y b\<rparr>"

definition mul2 :: "float2 \<Rightarrow> real \<Rightarrow> float2" where
  "mul2 v s = \<lparr>x = x v * s, y = y v * s\<rparr>"

definition smul2 :: "real \<Rightarrow> float2 \<Rightarrow> float2" where
  "smul2 s v = \<lparr>x = s * x v, y = s * y v\<rparr>"

definition div2 :: "float2 \<Rightarrow> float2 \<Rightarrow> float2" where
  "div2 a b = \<lparr>x = x a / x b, y = y a / y b\<rparr>"

text \<open>\<^verbatim>\<open>saturate\<close> clamps to \<open>[0, 1]\<close>; \<^verbatim>\<open>lerp(a, b, t) = a + t * (b - a)\<close>.\<close>

definition saturate :: "real \<Rightarrow> real" where
  "saturate v = (if v < 0 then 0 else if 1 < v then 1 else v)"

definition saturate3 :: "float3 \<Rightarrow> float3" where
  "saturate3 v = \<lparr>x = saturate (x v), y = saturate (y v), z = saturate (z v)\<rparr>"

definition lerp :: "real \<Rightarrow> real \<Rightarrow> real \<Rightarrow> real" where
  "lerp a b t = a + t * (b - a)"

definition lerp3 :: "float3 \<Rightarrow> float3 \<Rightarrow> float3 \<Rightarrow> float3" where
  "lerp3 a b t = \<lparr>x = lerp (x a) (x b) (x t), y = lerp (y a) (y b) (y t), z = lerp (z a) (z b) (z t)\<rparr>"

definition mul3 :: "float3 \<Rightarrow> real \<Rightarrow> float3" where
  "mul3 v s = \<lparr>x = x v * s, y = y v * s, z = z v * s\<rparr>"

text \<open>\<^verbatim>\<open>s / v\<close> with a scalar \<open>s\<close>: the scalar is divided by each component.\<close>

definition sdiv3 :: "real \<Rightarrow> float3 \<Rightarrow> float3" where
  "sdiv3 s v = \<lparr>x = s / x v, y = s / y v, z = s / z v\<rparr>"

definition length3 :: "float3 \<Rightarrow> real" where
  "length3 v = sqrt (x v * x v + y v * y v + z v * z v)"

definition normalize3 :: "float3 \<Rightarrow> float3" where
  "normalize3 v = \<lparr>x = x v / length3 v, y = y v / length3 v, z = z v / length3 v\<rparr>"

text \<open>
  A texture with the sampler it is read through: the colour \<^verbatim>\<open>Sample\<close> (or
  \<^verbatim>\<open>SampleLevel\<close> at mip level \<open>0\<close>) returns at a UV coordinate. Filtering and the address
  mode are part of the function.
\<close>

type_synonym Texture2D = "float2 \<Rightarrow> float4"

subsection \<open>Common.hlsli: water constants\<close>

definition MaxDistortionDistance :: real where
  "MaxDistortionDistance = 40"

definition WaterExtinction :: float3 where
  "WaterExtinction = \<lparr>x = 9, y = 7, z = 3\<rparr>"

definition WaterDiffuseLevel :: real where
  "WaterDiffuseLevel = 0.5"

definition WaterSize1 :: real where "WaterSize1 = 0.5"
definition WaterSize2 :: real where "WaterSize2 = 1.0"
definition WaterSize3 :: real where "WaterSize3 = 2.0"
definition WaterSize4 :: real where "WaterSize4 = 4.0"

definition WaterSpeed1 :: real where "WaterSpeed1 = 0.5"
definition WaterSpeed2 :: real where "WaterSpeed2 = 1.0"
definition WaterSpeed3 :: real where "WaterSpeed3 = 1.7"
definition WaterSpeed4 :: real where "WaterSpeed4 = 2.6"

definition HeightMapHeightOverWidth :: real where
  "HeightMapHeightOverWidth = 1 / 32.0"

definition WaterWidth :: real where
  "WaterWidth = 400.0"

definition MaxWaveHeight :: real where
  "MaxWaveHeight = WaterWidth * HeightMapHeightOverWidth"

subsection \<open>Common.hlsli: shader input and output, constant buffers\<close>

record BasicVertex =
  position :: float3
  normal :: float3
  uv :: float2

record LightingPixelShaderInput =
  projectedPosition :: float4
  worldPosition :: float3
  worldNormal :: float3
  uv :: float2

record WorldPositionPixelShaderInput =
  projectedPosition :: float4
  worldPosition :: float3
  uv :: float2

text \<open>The globals of \<^verbatim>\<open>cbuffer PerFrameConstants\<close> and \<^verbatim>\<open>cbuffer PerModelConstants\<close>.\<close>

record cbuffer_PerFrameConstants =
  gCameraMatrix :: float4x4
  gViewMatrix :: float4x4
  gProjectionMatrix :: float4x4
  gViewProjectionMatrix :: float4x4
  gLight1Position :: float3
  gViewportWidth :: real
  gLight1Colour :: float3
  gViewportHeight :: real
  gLight2Position :: float3
  padding1 :: real
  gLight2Colour :: float3
  padding2 :: real
  gAmbientColour :: float3
  gSpecularPower :: real
  gCameraPosition :: float3
  padding3 :: real
  gWaterPlaneY :: real
  gWaveScale :: real
  gWaterMovement :: float2

record cbuffer_PerModelConstants =
  gWorldMatrix :: float4x4
  gObjectColour :: float3
  padding4 :: real
  gBoneMatrices :: "float4x4 list"

subsection \<open>WaterSurface_vs.hlsl\<close>

text \<open>
  The four samples of the alpha channel of \<^verbatim>\<open>NormalHeightMap\<close> and their sum, the
  variable \<^verbatim>\<open>height\<close> of \<^verbatim>\<open>main\<close>.
\<close>

definition WaterSurface_vs_height :: "Texture2D \<Rightarrow> cbuffer_PerFrameConstants \<Rightarrow> BasicVertex \<Rightarrow> real" where
  "WaterSurface_vs_height NormalHeightMap cb input =
    (let waterUV = BasicVertex.uv input;
         normal1 = w (NormalHeightMap (smul2 WaterSize1 (add2 waterUV (mul2 (gWaterMovement cb) WaterSpeed1))));
         normal2 = w (NormalHeightMap (smul2 WaterSize2 (add2 waterUV (mul2 (gWaterMovement cb) WaterSpeed2))));
         normal3 = w (NormalHeightMap (smul2 WaterSize3 (add2 waterUV (mul2 (gWaterMovement cb) WaterSpeed3))));
         normal4 = w (NormalHeightMap (smul2 WaterSize4 (add2 waterUV (mul2 (gWaterMovement cb) WaterSpeed4))))
     in normal1 + normal2 + normal3 + normal4)"

text \<open>\<^verbatim>\<open>modelPosition\<close> after \<^verbatim>\<open>modelPosition.y += ...\<close>.\<close>

definition WaterSurface_vs_modelPosition :: "Texture2D \<Rightarrow> cbuffer_PerFrameConstants \<Rightarrow> BasicVertex \<Rightarrow> float4" where
  "WaterSurface_vs_modelPosition NormalHeightMap cb input =
    (let modelPosition = \<lparr>x = x (position input), y = y (position input), z = z (position input), w = 1.0\<rparr>;
         height = WaterSurface_vs_height NormalHeightMap cb input
     in modelPosition\<lparr>y := y modelPosition + (0.25 * height - 0.5) * MaxWaveHeight * gWaveScale cb\<rparr>)"

definition WaterSurface_vs :: "Texture2D \<Rightarrow> cbuffer_PerFrameConstants \<Rightarrow> cbuffer_PerModelConstants \<Rightarrow> BasicVertex
    \<Rightarrow> WorldPositionPixelShaderInput" where
  "WaterSurface_vs NormalHeightMap cb cm input =
    (let modelPosition = WaterSurface_vs_modelPosition NormalHeightMap cb input;
         worldPosition = mul (gWorldMatrix cm) modelPosition;
         viewPosition = mul (gViewMatrix cb) worldPosition
     in \<lparr>projectedPosition = mul (gProjectionMatrix cb) viewPosition,
         worldPosition = \<lparr>x = x worldPosition, y = y worldPosition, z = z worldPosition\<rparr>,
         uv = BasicVertex.uv input\<rparr>)"

subsection \<open>RefractedPixelLighting_ps.hlsl\<close>

text \<open>\<^verbatim>\<open>c.rgb\<close>, and \<^verbatim>\<open>float4(v, a)\<close> from a \<^verbatim>\<open>float3\<close> and a scalar.\<close>

definition rgb :: "float4 \<Rightarrow> float3" where
  "rgb c = \<lparr>x = x c, y = y c, z = z c\<rparr>"

definition float4_of :: "float3 \<Rightarrow> real \<Rightarrow> float4" where
  "float4_of v a = \<lparr>x = x v, y = y v, z = z v, w = a\<rparr>"

text \<open>\<^verbatim>\<open>clip(v)\<close> discards the pixel when \<open>v\<close> is less than zero: \<open>True\<close> is "discarded".\<close>

definition clip :: "real \<Rightarrow> bool" where
  "clip v = (v < 0)"

text \<open>
  \<^verbatim>\<open>screenUV\<close>, \<^verbatim>\<open>waterHeight\<close> and \<^verbatim>\<open>objectDepth\<close> of \<^verbatim>\<open>main\<close>. The viewport size divides
  the pixel position; nothing below depends on the value of \<^verbatim>\<open>screenUV\<close>, so a zero
  viewport size needs no case of its own.
\<close>

definition RefractedPixelLighting_ps_screenUV :: "cbuffer_PerFrameConstants \<Rightarrow> LightingPixelShaderInput \<Rightarrow> float2" where
  "RefractedPixelLighting_ps_screenUV cb input =
    div2 \<lparr>x = x (LightingPixelShaderInput.projectedPosition input), y = y (LightingPixelShaderInput.projectedPosition input)\<rparr>
         \<lparr>x = gViewportWidth cb, y = gViewportHeight cb\<rparr>"

definition RefractedPixelLighting_ps_objectDepth :: "Texture2D \<Rightarrow> cbuffer_PerFrameConstants \<Rightarrow> LightingPixelShaderInput \<Rightarrow> real" where
  "RefractedPixelLighting_ps_objectDepth WaterHeightMap cb input =
    (let screenUV = RefractedPixelLighting_ps_screenUV cb input;
         waterHeight = x (WaterHeightMap screenUV)
     in waterHeight - y (LightingPixelShaderInput.worldPosition input))"

text \<open>\<^verbatim>\<open>depthDarken = saturate(objectDepth / WaterExtinction)\<close>.\<close>

definition depthDarken :: "real \<Rightarrow> float3" where
  "depthDarken objectDepth = saturate3 (sdiv3 objectDepth WaterExtinction)"

text \<open>
  \<^verbatim>\<open>main\<close>. \<open>None\<close> is the discarded pixel: nothing is written. \<^verbatim>\<open>PixelLighting\<close> is the
  function of \<^verbatim>\<open>PixelLighting_ps.hlsl\<close>, a file outside the sources: a parameter.
\<close>

definition RefractedPixelLighting_ps :: "(LightingPixelShaderInput \<Rightarrow> float4) \<Rightarrow> Texture2D \<Rightarrow> cbuffer_PerFrameConstants
    \<Rightarrow> LightingPixelShaderInput \<Rightarrow> float4 option" where
  "RefractedPixelLighting_ps PixelLighting WaterHeightMap cb input =
    (let objectDepth = RefractedPixelLighting_ps_objectDepth WaterHeightMap cb input
     in if clip objectDepth then None
        else
          (let sceneColour = rgb (PixelLighting input);
               refractionColour = lerp3 sceneColour (mul3 (normalize3 WaterExtinction) WaterDiffuseLevel) (depthDarken objectDepth)
           in Some (float4_of refractionColour (saturate (objectDepth / MaxDistortionDistance)))))"

subsection \<open>The wave height field as the specification words it\<close>

text \<open>
  The octaves: each spatial scale with its scroll speed. An octave reads the height
  (alpha) of the map at the vertex UV, scrolled by the movement offset at the octave's
  speed and scaled by the octave's scale.
\<close>

definition octaves :: "(real \<times> real) list" where
  "octaves = [(0.5, 0.5), (1.0, 1.0), (2.0, 1.7), (4.0, 2.6)]"

definition octave_height :: "Texture2D \<Rightarrow> float2 \<Rightarrow> float2 \<Rightarrow> real \<times> real \<Rightarrow> real" where
  "octave_height tex uv0 movement oct =
    w (tex \<lparr>x = fst oct * (x uv0 + snd oct * x movement), y = fst oct * (y uv0 + snd oct * y movement)\<rparr>)"

definition wave_height_field :: "Texture2D \<Rightarrow> float2 \<Rightarrow> float2 \<Rightarrow> real \<Rightarrow> real" where
  "wave_height_field tex uv0 movement waveScale =
    (sum_list (map (octave_height tex uv0 movement) octaves) * 0.25 - 0.5) * MaxWaveHeight * waveScale"

subsection \<open>C++ float\<close>

text \<open>
  Rounding to binary32, to nearest with ties to even. \<open>expo_search\<close> finds the binary
  exponent of a magnitude, from the least normal exponent \<open>-126\<close> up to \<open>127\<close>; the
  spacing of binary32 numbers there is \<open>2\<close> to that exponent less \<open>23\<close>; \<open>rne\<close> rounds the
  scaled value to the nearest integer. \<open>fl32\<close> has no largest value: where a result is
  beyond \<open>FLT_MAX\<close> the code has an infinity, which is said where it matters
  (\<open>reflect_checked\<close> below).
\<close>

fun expo_search :: "nat \<Rightarrow> int \<Rightarrow> real \<Rightarrow> int" where
  "expo_search 0 e a = e"
| "expo_search (Suc n) e a = (if 2 powi (e + 1) \<le> a then expo_search n (e + 1) a else e)"

definition rne :: "real \<Rightarrow> int" where
  "rne q = (let f = \<lfloor>q\<rfloor>; r = q - of_int f in
     if r < 1 / 2 then f else if 1 / 2 < r then f + 1 else if even f then f else f + 1)"

definition fl32 :: "real \<Rightarrow> real" where
  "fl32 v = (let u = 2 powi (expo_search 253 (- 126) \<bar>v\<bar> - 23) in of_int (rne (v / u)) * u)"

text \<open>\<^verbatim>\<open>a + b\<close>, \<^verbatim>\<open>a - b\<close> and \<^verbatim>\<open>a * b\<close> on \<^verbatim>\<open>float\<close>.\<close>

definition fadd :: "real \<Rightarrow> real \<Rightarrow> real" where
  "fadd a b = fl32 (a + b)"

definition fsub :: "real \<Rightarrow> real \<Rightarrow> real" where
  "fsub a b = fl32 (a - b)"

definition fmul :: "real \<Rightarrow> real \<Rightarrow> real" where
  "fmul a b = fl32 (a * b)"

subsection \<open>CVector2, CVector3, CMatrix4x4\<close>

text \<open>
  Modelled from the spec: the classes \<^verbatim>\<open>CVector2\<close>, \<^verbatim>\<open>CVector3\<close> and \<^verbatim>\<open>CMatrix4x4\<close> are
  declared in headers outside the sources. A vector holds its \<^verbatim>\<open>float\<close> components
  \<open>x\<close>, \<open>y\<close> (and \<open>z\<close>: "3 floats: x, y z" in \<^verbatim>\<open>Common.h\<close>); a matrix holds sixteen
  \<^verbatim>\<open>float\<close> elements \<open>e00\<close> to \<open>e33\<close> by rows ("Position is on bottom row (row 3) of matrix
  so Camera.y is matrix element e31" in \<^verbatim>\<open>Scene.cpp\<close>).
\<close>

type_synonym CVector2 = float2

type_synonym CVector3 = float3

record CMatrix4x4 =
  e00 :: real
  e01 :: real
  e02 :: real
  e03 :: real
  e10 :: real
  e11 :: real
  e12 :: real
  e13 :: real
  e20 :: real
  e21 :: real
  e22 :: real
  e23 :: real
  e30 :: real
  e31 :: real
  e32 :: real
  e33 :: real

subsection \<open>Common.h: struct PerFrameConstants\<close>

record PerFrameConstants =
  cameraMatrix :: CMatrix4x4
  viewMatrix :: CMatrix4x4
  projectionMatrix :: CMatrix4x4
  viewProjectionMatrix :: CMatrix4x4
  light1Position :: CVector3
  viewportWidth :: real
  light1Colour :: CVector3
  viewportHeight :: real
  light2Position :: CVector3
  padding1 :: real
  light2Colour :: CVector3
  padding2 :: real
  ambientColour :: CVector3
  specularPower :: real
  cameraPosition :: CVector3
  padding3 :: real
  waterPlaneY :: real
  waveScale :: real
  waterMovement :: CVector2

subsection \<open>Scene.cpp: the camera and its reflection in the water plane\<close>

text \<open>
  Modelled from the spec: class \<^verbatim>\<open>Camera\<close> is outside the sources. The camera exposes
  its world matrix and a mutable pose, the position and the three basis axes:
  \<^verbatim>\<open>XAxis()\<close>, \<^verbatim>\<open>YAxis()\<close>, \<^verbatim>\<open>ZAxis()\<close> and \<^verbatim>\<open>Position()\<close> are rows 0 to 3 of
  \<^verbatim>\<open>WorldMatrix()\<close>, so their \<open>y\<close> components are \<open>e01\<close>, \<open>e11\<close>, \<open>e21\<close> and \<open>e31\<close>. The view
  and projection matrices are what the class computes from the camera; they are the
  three functions of \<open>CameraClass\<close>.
\<close>

record Camera =
  WorldMatrix :: CMatrix4x4
  nearClip :: real
  farClip :: real

record CameraClass =
  ViewMatrix :: "Camera \<Rightarrow> CMatrix4x4"
  ProjectionMatrix :: "Camera \<Rightarrow> CMatrix4x4"
  ViewProjectionMatrix :: "Camera \<Rightarrow> CMatrix4x4"

text \<open>
  Lines 559 to 566 of \<^verbatim>\<open>RenderSceneFromCamera\<close>, on the world matrix \<open>m\<close> of the camera
  with the water at height \<open>waterY\<close>:
  \<^verbatim>\<open>camera->XAxis().y *= -1; camera->YAxis().y *= -1; camera->ZAxis().y *= -1;\<close>
  \<^verbatim>\<open>camera->Position().y = gWater->Position().y * 2 - camera->Position().y;\<close>
  The products with \<open>-1\<close> and \<open>2\<close> are exact in binary32; the difference is rounded.
  \<open>reflect\<close> is the code as long as the product with \<open>2\<close> and the difference stay in the
  range of binary32.
\<close>

definition reflect :: "CMatrix4x4 \<Rightarrow> real \<Rightarrow> CMatrix4x4" where
  "reflect m waterY =
    (let m1 = m\<lparr>e01 := e01 m * (- 1)\<rparr>;
         m2 = m1\<lparr>e11 := e11 m1 * (- 1)\<rparr>;
         m3 = m2\<lparr>e21 := e21 m2 * (- 1)\<rparr>
     in m3\<lparr>e31 := fsub (waterY * 2) (e31 m3)\<rparr>)"

text \<open>
  The largest binary32 number, and the finite binary32 numbers: the reals that rounding
  leaves as they are and that are not beyond \<open>FLT_MAX\<close>.
\<close>

definition FLT_MAX :: real where
  "FLT_MAX = (2 - 1 / 2 ^ 23) * 2 ^ 127"

definition binary32 :: "real \<Rightarrow> bool" where
  "binary32 v = (fl32 v = v \<and> \<bar>v\<bar> \<le> FLT_MAX)"

text \<open>
  Lines 559 to 566 with the overflow of line 566. When
  \<^verbatim>\<open>gWater->Position().y * 2\<close> is beyond \<open>FLT_MAX\<close> the product is an infinity, and when the
  rounded difference is beyond \<open>FLT_MAX\<close> the difference is one: the position Y the code
  stores is then an infinity, or NaN after a second mirroring, and not a number. That
  result is \<open>None\<close>.
\<close>

definition reflect_checked :: "CMatrix4x4 \<Rightarrow> real \<Rightarrow> CMatrix4x4 option" where
  "reflect_checked m waterY =
    (if \<bar>waterY * 2\<bar> \<le> FLT_MAX \<and> \<bar>fsub (waterY * 2) (e31 m)\<bar> \<le> FLT_MAX
     then Some (reflect m waterY) else None)"

subsection \<open>Scene.cpp: textures, views, shaders, models and pipeline states\<close>

datatype texture =
    gSkyDiffuseSpecularMap
  | gGroundDiffuseSpecularMap
  | gCrateDiffuseSpecularMap
  | gTrollDiffuseSpecularMap
  | gLightDiffuseMap
  | gWaterNormalMap
  | gWaterHeight
  | gReflection
  | gRefraction
  | gBackBufferTexture

datatype srv =
    gSkyDiffuseSpecularMapSRV
  | gGroundDiffuseSpecularMapSRV
  | gCrateDiffuseSpecularMapSRV
  | gTrollDiffuseSpecularMapSRV
  | gLightDiffuseMapSRV
  | gWaterNormalMapSRV
  | gWaterHeightSRV
  | gReflectionSRV
  | gRefractionSRV

datatype rtv =
    gWaterHeightRenderTarget
  | gReflectionRenderTarget
  | gRefractionRenderTarget
  | gBackBufferRenderTarget

text \<open>
  The texture behind each view, as \<^verbatim>\<open>InitGeometry\<close> creates them with \<^verbatim>\<open>LoadTexture\<close>,
  \<^verbatim>\<open>CreateShaderResourceView\<close> and \<^verbatim>\<open>CreateRenderTargetView\<close>.
\<close>

fun srv_texture :: "srv \<Rightarrow> texture" where
  "srv_texture gSkyDiffuseSpecularMapSRV = gSkyDiffuseSpecularMap"
| "srv_texture gGroundDiffuseSpecularMapSRV = gGroundDiffuseSpecularMap"
| "srv_texture gCrateDiffuseSpecularMapSRV = gCrateDiffuseSpecularMap"
| "srv_texture gTrollDiffuseSpecularMapSRV = gTrollDiffuseSpecularMap"
| "srv_texture gLightDiffuseMapSRV = gLightDiffuseMap"
| "srv_texture gWaterNormalMapSRV = gWaterNormalMap"
| "srv_texture gWaterHeightSRV = gWaterHeight"
| "srv_texture gReflectionSRV = gReflection"
| "srv_texture gRefractionSRV = gRefraction"

fun rtv_texture :: "rtv \<Rightarrow> texture" where
  "rtv_texture gWaterHeightRenderTarget = gWaterHeight"
| "rtv_texture gReflectionRenderTarget = gReflection"
| "rtv_texture gRefractionRenderTarget = gRefraction"
| "rtv_texture gBackBufferRenderTarget = gBackBufferTexture"

datatype vertex_shader =
    gBasicTransformVertexShader
  | gPixelLightingVertexShader
  | gBasicTransformWorldPosVertexShader
  | gWaterSurfaceVertexShader

datatype pixel_shader =
    gTintedTexturePixelShader
  | gPixelLightingPixelShader
  | gWaterSurfacePixelShader
  | gWaterHeightPixelShader
  | gReflectedPixelLightingPixelShader
  | gReflectedTintedTexturePixelShader
  | gRefractedPixelLightingPixelShader
  | gRefractedTintedTexturePixelShader

datatype sampler_state = gAnisotropic4xSampler | gBilinearMirrorSampler

datatype blend_state = gNoBlendingState | gAdditiveBlendingState

datatype depth_stencil_state = gUseDepthBufferState | gDepthReadOnlyState

datatype rasterizer_state = gCullBackState | gCullFrontState | gCullNoneState

text \<open>The models of the scene; \<open>gLights_model i\<close> is \<^verbatim>\<open>gLights[i].model\<close>.\<close>

datatype model = gSky | gGround | gTroll | gCrate | gWater | gLights_model nat

definition NUM_LIGHTS :: nat where
  "NUM_LIGHTS = 2"

subsection \<open>The state of the scene and of the device context\<close>

text \<open>
  What a draw call is issued with: the model, the render target, the shaders, the
  culling state, the pixel-shader textures and the camera matrix in the constant buffer.
\<close>

record draw =
  d_model :: model
  d_target :: "rtv option"
  d_vertex_shader :: "vertex_shader option"
  d_pixel_shader :: "pixel_shader option"
  d_rasterizer :: "rasterizer_state option"
  d_textures :: "nat \<Rightarrow> srv option"
  d_cameraMatrix :: CMatrix4x4

text \<open>
  The globals of \<^verbatim>\<open>Scene.cpp\<close> the frame and the update use, the local
  \<^verbatim>\<open>originalMatrix\<close> of \<^verbatim>\<open>RenderSceneFromCamera\<close>, the static locals \<^verbatim>\<open>waveScale\<close> and
  \<^verbatim>\<open>waterPos\<close> of \<^verbatim>\<open>UpdateScene\<close>, the bindings of \<^verbatim>\<open>gD3DContext\<close>, the constant buffer on the
  GPU, and the draw calls issued so far. The contents of the render targets are not
  part of the state.
\<close>

record Scene =
  gCamera :: Camera
  gWater_Position :: CVector3
  gLights_colour :: "nat \<Rightarrow> CVector3"
  gPerFrameConstants :: PerFrameConstants
  gPerModelConstants_objectColour :: CVector3
  originalMatrix :: CMatrix4x4
  static_waveScale :: real
  static_waterPos :: CVector2
  OM_RenderTargets :: "rtv option"
  OM_BlendState :: "blend_state option"
  OM_DepthStencilState :: "depth_stencil_state option"
  RS_State :: "rasterizer_state option"
  VS_Shader :: "vertex_shader option"
  PS_Shader :: "pixel_shader option"
  GS_Shader_set :: bool
  PS_ShaderResources :: "nat \<Rightarrow> srv option"
  VS_ShaderResources :: "nat \<Rightarrow> srv option"
  PS_Samplers :: "nat \<Rightarrow> sampler_state option"
  VS_Samplers :: "nat \<Rightarrow> sampler_state option"
  gPerFrameConstantBuffer :: PerFrameConstants
  draws :: "draw list"

subsection \<open>The calls on gD3DContext\<close>

definition OMSetRenderTargets :: "rtv \<Rightarrow> Scene \<Rightarrow> Scene" where
  "OMSetRenderTargets target s = s\<lparr>OM_RenderTargets := Some target\<rparr>"

text \<open>Clearing changes the contents of a target only.\<close>

definition Zero :: float4 where
  "Zero = \<lparr>x = 0, y = 0, z = 0, w = 0\<rparr>"

definition gBackgroundColor :: float4 where
  "gBackgroundColor = \<lparr>x = 0.5, y = 0.5, z = 0.5, w = 1.0\<rparr>"

definition ClearRenderTargetView :: "rtv \<Rightarrow> float4 \<Rightarrow> Scene \<Rightarrow> Scene" where
  "ClearRenderTargetView target colour s = s"

definition ClearDepthStencilView :: "Scene \<Rightarrow> Scene" where
  "ClearDepthStencilView s = s"

definition PSSetShaderResources :: "nat \<Rightarrow> srv option \<Rightarrow> Scene \<Rightarrow> Scene" where
  "PSSetShaderResources slot view s = s\<lparr>PS_ShaderResources := (PS_ShaderResources s)(slot := view)\<rparr>"

definition VSSetShaderResources :: "nat \<Rightarrow> srv option \<Rightarrow> Scene \<Rightarrow> Scene" where
  "VSSetShaderResources slot view s = s\<lparr>VS_ShaderResources := (VS_ShaderResources s)(slot := view)\<rparr>"

definition PSSetSamplers :: "nat \<Rightarrow> sampler_state \<Rightarrow> Scene \<Rightarrow> Scene" where
  "PSSetSamplers slot sampler s = s\<lparr>PS_Samplers := (PS_Samplers s)(slot := Some sampler)\<rparr>"

definition VSSetSamplers :: "nat \<Rightarrow> sampler_state \<Rightarrow> Scene \<Rightarrow> Scene" where
  "VSSetSamplers slot sampler s = s\<lparr>VS_Samplers := (VS_Samplers s)(slot := Some sampler)\<rparr>"

definition OMSetBlendState :: "blend_state \<Rightarrow> Scene \<Rightarrow> Scene" where
  "OMSetBlendState b s = s\<lparr>OM_BlendState := Some b\<rparr>"

definition OMSetDepthStencilState :: "depth_stencil_state \<Rightarrow> Scene \<Rightarrow> Scene" where
  "OMSetDepthStencilState d s = s\<lparr>OM_DepthStencilState := Some d\<rparr>"

definition RSSetState :: "rasterizer_state \<Rightarrow> Scene \<Rightarrow> Scene" where
  "RSSetState r s = s\<lparr>RS_State := Some r\<rparr>"

definition VSSetShader :: "vertex_shader \<Rightarrow> Scene \<Rightarrow> Scene" where
  "VSSetShader sh s = s\<lparr>VS_Shader := Some sh\<rparr>"

definition PSSetShader :: "pixel_shader \<Rightarrow> Scene \<Rightarrow> Scene" where
  "PSSetShader sh s = s\<lparr>PS_Shader := Some sh\<rparr>"

text \<open>\<^verbatim>\<open>GSSetShader(nullptr, nullptr, 0)\<close>.\<close>

definition GSSetShader_nullptr :: "Scene \<Rightarrow> Scene" where
  "GSSetShader_nullptr s = s\<lparr>GS_Shader_set := False\<rparr>"

text \<open>
  \<^verbatim>\<open>Model::Render\<close> is outside the sources: a draw call of the model under the bindings
  of the moment.
\<close>

definition Render :: "model \<Rightarrow> Scene \<Rightarrow> Scene" where
  "Render m s = s\<lparr>draws := draws s @
     [\<lparr>d_model = m, d_target = OM_RenderTargets s, d_vertex_shader = VS_Shader s,
       d_pixel_shader = PS_Shader s, d_rasterizer = RS_State s, d_textures = PS_ShaderResources s,
       d_cameraMatrix = cameraMatrix (gPerFrameConstantBuffer s)\<rparr>]\<rparr>"

subsection \<open>Scene.cpp: RenderLitModels, RenderOtherModels, SelectCamera\<close>

text \<open>
  A function of \<^verbatim>\<open>Scene.cpp\<close> is the list of its statements, each a function on the
  state; \<open>run\<close> executes them in order and \<open>always P\<close> says that \<open>P\<close> holds before the
  first statement and after every statement.
\<close>

fun run :: "(Scene \<Rightarrow> Scene) list \<Rightarrow> Scene \<Rightarrow> Scene" where
  "run [] s = s"
| "run (f # fs) s = run fs (f s)"

fun always :: "(Scene \<Rightarrow> bool) \<Rightarrow> (Scene \<Rightarrow> Scene) list \<Rightarrow> Scene \<Rightarrow> bool" where
  "always P [] s = P s"
| "always P (f # fs) s = (P s \<and> always P fs (f s))"

definition RenderLitModels :: "(Scene \<Rightarrow> Scene) list" where
  "RenderLitModels =
    [PSSetShaderResources 0 (Some gGroundDiffuseSpecularMapSRV),
     Render gGround,
     PSSetShaderResources 0 (Some gTrollDiffuseSpecularMapSRV),
     Render gTroll,
     PSSetShaderResources 0 (Some gCrateDiffuseSpecularMapSRV),
     Render gCrate]"

definition set_objectColour :: "(Scene \<Rightarrow> CVector3) \<Rightarrow> Scene \<Rightarrow> Scene" where
  "set_objectColour c s = s\<lparr>gPerModelConstants_objectColour := c s\<rparr>"

definition RenderOtherModels :: "(Scene \<Rightarrow> Scene) list" where
  "RenderOtherModels =
    [set_objectColour (\<lambda>s. \<lparr>x = 1, y = 1, z = 1\<rparr>),
     RSSetState gCullNoneState,
     PSSetShaderResources 0 (Some gSkyDiffuseSpecularMapSRV),
     Render gSky,
     PSSetShaderResources 0 (Some gLightDiffuseMapSRV),
     OMSetBlendState gAdditiveBlendingState,
     OMSetDepthStencilState gDepthReadOnlyState,
     RSSetState gCullNoneState]
    @ concat (map (\<lambda>i. [set_objectColour (\<lambda>s. gLights_colour s i), Render (gLights_model i)]) [0..<NUM_LIGHTS])
    @ [OMSetBlendState gNoBlendingState,
       OMSetDepthStencilState gUseDepthBufferState,
       RSSetState gCullBackState]"

text \<open>
  \<^verbatim>\<open>SelectCamera(camera)\<close>: the four camera matrices go into \<^verbatim>\<open>gPerFrameConstants\<close>, and
  \<^verbatim>\<open>UpdateConstantBuffer\<close> copies the structure to the buffer on the GPU.
\<close>

definition SelectCamera :: "CameraClass \<Rightarrow> Scene \<Rightarrow> Scene" where
  "SelectCamera cls s =
    (let c = (gPerFrameConstants s)
               \<lparr>cameraMatrix := WorldMatrix (gCamera s),
                viewMatrix := ViewMatrix cls (gCamera s),
                projectionMatrix := ProjectionMatrix cls (gCamera s),
                viewProjectionMatrix := ViewProjectionMatrix cls (gCamera s)\<rparr>
     in s\<lparr>gPerFrameConstants := c, gPerFrameConstantBuffer := c\<rparr>)"

subsection \<open>Scene.cpp: RenderSceneFromCamera\<close>

text \<open>
  \<^verbatim>\<open>RenderScene\<close> calls \<^verbatim>\<open>RenderSceneFromCamera(gCamera)\<close>: the parameter \<^verbatim>\<open>camera\<close> is
  \<^verbatim>\<open>gCamera\<close>. The statements on the camera around the reflection pass, lines 558 to 566
  and line 598:
\<close>

definition save_originalMatrix :: "Scene \<Rightarrow> Scene" where
  "save_originalMatrix s = s\<lparr>originalMatrix := WorldMatrix (gCamera s)\<rparr>"

definition reflect_camera :: "Scene \<Rightarrow> Scene" where
  "reflect_camera s = s\<lparr>gCamera := (gCamera s)\<lparr>WorldMatrix := reflect (WorldMatrix (gCamera s)) (y (gWater_Position s))\<rparr>\<rparr>"

definition restore_originalMatrix :: "Scene \<Rightarrow> Scene" where
  "restore_originalMatrix s = s\<lparr>gCamera := (gCamera s)\<lparr>WorldMatrix := originalMatrix s\<rparr>\<rparr>"

text \<open>The common states, textures and samplers, lines 479 to 496.\<close>

definition prepare_common_states :: "CameraClass \<Rightarrow> (Scene \<Rightarrow> Scene) list" where
  "prepare_common_states cls =
    [SelectCamera cls,
     PSSetShaderResources 1 (Some gWaterNormalMapSRV),
     VSSetShaderResources 1 (Some gWaterNormalMapSRV),
     PSSetSamplers 0 gAnisotropic4xSampler,
     VSSetSamplers 0 gAnisotropic4xSampler,
     PSSetSamplers 1 gBilinearMirrorSampler,
     OMSetBlendState gNoBlendingState,
     OMSetDepthStencilState gUseDepthBufferState,
     RSSetState gCullBackState]"

text \<open>"Render water height", lines 499 to 518.\<close>

definition render_water_height :: "(Scene \<Rightarrow> Scene) list" where
  "render_water_height =
    [OMSetRenderTargets gWaterHeightRenderTarget,
     ClearRenderTargetView gWaterHeightRenderTarget Zero,
     ClearDepthStencilView,
     VSSetShader gWaterSurfaceVertexShader,
     PSSetShader gWaterHeightPixelShader,
     GSSetShader_nullptr,
     Render gWater]"

text \<open>"Render refracted scene", lines 521 to 547.\<close>

definition render_refracted_scene :: "(Scene \<Rightarrow> Scene) list" where
  "render_refracted_scene =
    [OMSetRenderTargets gRefractionRenderTarget,
     ClearRenderTargetView gRefractionRenderTarget gBackgroundColor,
     ClearDepthStencilView,
     PSSetShaderResources 2 (Some gWaterHeightSRV),
     VSSetShader gPixelLightingVertexShader,
     PSSetShader gRefractedPixelLightingPixelShader]
    @ RenderLitModels
    @ [VSSetShader gBasicTransformWorldPosVertexShader,
       PSSetShader gRefractedTintedTexturePixelShader]
    @ RenderOtherModels"

text \<open>
  "Render reflected scene", lines 550 to 604, to the detaching of the water height map
  from slot 2.
\<close>

definition render_reflected_scene :: "CameraClass \<Rightarrow> (Scene \<Rightarrow> Scene) list" where
  "render_reflected_scene cls =
    [save_originalMatrix,
     reflect_camera,
     SelectCamera cls,
     RSSetState gCullFrontState,
     OMSetRenderTargets gReflectionRenderTarget,
     ClearRenderTargetView gReflectionRenderTarget gBackgroundColor,
     ClearDepthStencilView,
     VSSetShader gPixelLightingVertexShader,
     PSSetShader gReflectedPixelLightingPixelShader]
    @ RenderLitModels
    @ [VSSetShader gBasicTransformWorldPosVertexShader,
       PSSetShader gReflectedTintedTexturePixelShader]
    @ RenderOtherModels
    @ [restore_originalMatrix,
       SelectCamera cls,
       RSSetState gCullBackState,
       PSSetShaderResources 2 None]"

text \<open>"Render main scene", lines 607 to 644.\<close>

definition render_main_scene :: "(Scene \<Rightarrow> Scene) list" where
  "render_main_scene =
    [OMSetRenderTargets gBackBufferRenderTarget,
     ClearDepthStencilView,
     VSSetShader gPixelLightingVertexShader,
     PSSetShader gPixelLightingPixelShader]
    @ RenderLitModels
    @ [PSSetShaderResources 3 (Some gRefractionSRV),
       PSSetShaderResources 4 (Some gReflectionSRV),
       VSSetShader gWaterSurfaceVertexShader,
       PSSetShader gWaterSurfacePixelShader,
       Render gWater,
       PSSetShaderResources 3 None,
       PSSetShaderResources 4 None,
       VSSetShader gBasicTransformVertexShader,
       PSSetShader gTintedTexturePixelShader]
    @ RenderOtherModels"

definition RenderSceneFromCamera_body :: "CameraClass \<Rightarrow> (Scene \<Rightarrow> Scene) list" where
  "RenderSceneFromCamera_body cls =
    prepare_common_states cls @ render_water_height @ render_refracted_scene
    @ render_reflected_scene cls @ render_main_scene"

definition RenderSceneFromCamera :: "CameraClass \<Rightarrow> Scene \<Rightarrow> Scene" where
  "RenderSceneFromCamera cls s = run (RenderSceneFromCamera_body cls) s"

text \<open>The draw calls a frame adds to those issued before it.\<close>

definition frame_draws :: "CameraClass \<Rightarrow> Scene \<Rightarrow> draw list" where
  "frame_draws cls s = drop (length (draws s)) (draws (RenderSceneFromCamera cls s))"

subsection \<open>A texture bound as render target and as shader resource\<close>

text \<open>
  A context has 128 shader-resource slots per stage. \<open>hazard\<close>: the texture of the
  bound render target is also behind a view bound to a pixel- or vertex-shader slot.
  \<open>frame_ready\<close>: no view of a texture that has a render-target view is bound to a slot,
  the state of a new context and the state every frame leaves.
\<close>

definition SRV_SLOT_COUNT :: nat where
  "SRV_SLOT_COUNT = 128"

definition reads_texture :: "srv option \<Rightarrow> texture \<Rightarrow> bool" where
  "reads_texture view t = (case view of None \<Rightarrow> False | Some v \<Rightarrow> srv_texture v = t)"

definition hazard :: "Scene \<Rightarrow> bool" where
  "hazard s =
    (case OM_RenderTargets s of
       None \<Rightarrow> False
     | Some target \<Rightarrow>
         (\<exists>slot<SRV_SLOT_COUNT.
            reads_texture (PS_ShaderResources s slot) (rtv_texture target)
            \<or> reads_texture (VS_ShaderResources s slot) (rtv_texture target)))"

definition views_a_target :: "srv option \<Rightarrow> bool" where
  "views_a_target view =
    list_ex (\<lambda>target. reads_texture view (rtv_texture target))
      [gWaterHeightRenderTarget, gReflectionRenderTarget, gRefractionRenderTarget, gBackBufferRenderTarget]"

definition frame_ready :: "Scene \<Rightarrow> bool" where
  "frame_ready s =
    (\<forall>slot<SRV_SLOT_COUNT.
       \<not> views_a_target (PS_ShaderResources s slot) \<and> \<not> views_a_target (VS_ShaderResources s slot))"

text \<open>
  \<open>binds_outside E f t\<close>: a slot outside \<open>E\<close> of the slot table \<open>f\<close> holds a view of the
  texture \<open>t\<close>.
\<close>

definition binds_outside :: "nat set \<Rightarrow> (nat \<Rightarrow> srv option) \<Rightarrow> texture \<Rightarrow> bool" where
  "binds_outside E f t = (\<exists>slot<SRV_SLOT_COUNT. slot \<notin> E \<and> reads_texture (f slot) t)"

subsection \<open>Scene.cpp: UpdateScene\<close>

text \<open>
  The control of the water height, the control of the wave height and the movement of
  the water, lines 731 to 748. \<^verbatim>\<open>KeyHeld\<close> is the state of the keyboard (\<^verbatim>\<open>Input.h\<close>, outside
  the sources). The orbit of the light, the control of camera and troll and the window
  title are left out: they write none of the fields below.
\<close>

datatype KeyCode = Key_Period | Key_Comma | Key_Plus | Key_Minus

definition UpdateScene :: "(KeyCode \<Rightarrow> bool) \<Rightarrow> real \<Rightarrow> Scene \<Rightarrow> Scene" where
  "UpdateScene KeyHeld frameTime s =
    (let waterPlaneY0 = y (gWater_Position s);
         waterPlaneY1 = (if KeyHeld Key_Period then fadd waterPlaneY0 (fmul 5.0 frameTime) else waterPlaneY0);
         waterPlaneY2 = (if KeyHeld Key_Comma then fsub waterPlaneY1 (fmul 5.0 frameTime) else waterPlaneY1);
         waveScale0 = static_waveScale s;
         waveScale1 = (if KeyHeld Key_Plus then fadd waveScale0 (fmul 0.5 frameTime) else waveScale0);
         waveScale2 = (if KeyHeld Key_Minus then fsub waveScale1 (fmul 0.5 frameTime) else waveScale1);
         waveScale3 = (if waveScale2 < 0 then 0 else waveScale2);
         waterSpeed = 1.0;
         waterPos = \<lparr>x = fadd (x (static_waterPos s)) (fmul (fmul frameTime waterSpeed) (fl32 0.01)),
                     y = fadd (y (static_waterPos s)) (fmul (fmul frameTime waterSpeed) (fl32 0.015))\<rparr>
     in s\<lparr>gWater_Position := (gWater_Position s)\<lparr>y := waterPlaneY2\<rparr>,
          static_waveScale := waveScale3,
          static_waterPos := waterPos,
          gPerFrameConstants := (gPerFrameConstants s)
             \<lparr>waterPlaneY := waterPlaneY2, waveScale := waveScale3, waterMovement := waterPos\<rparr>\<rparr>)"

text \<open>The update steps of a run of the program: one per frame, each with its keys and frame time.\<close>

fun updates :: "((KeyCode \<Rightarrow> bool) \<times> real) list \<Rightarrow> Scene \<Rightarrow> Scene" where
  "updates [] s = s"
| "updates ((KeyHeld, frameTime) # rest) s = updates rest (UpdateScene KeyHeld frameTime s)"

subsection \<open>The layout of PerFrameConstants in C++ and in HLSL\<close>

text \<open>
  The members of \<^verbatim>\<open>struct PerFrameConstants\<close> (\<^verbatim>\<open>Common.h\<close>) and of
  \<^verbatim>\<open>cbuffer PerFrameConstants\<close> (\<^verbatim>\<open>Common.hlsli\<close>), as declared: type and name.
\<close>

datatype cpp_type = cpp_float | cpp_CVector2 | cpp_CVector3 | cpp_CMatrix4x4

datatype hlsl_type = hlsl_float | hlsl_float2 | hlsl_float3 | hlsl_float4x4

definition Common_h_PerFrameConstants :: "(cpp_type \<times> string) list" where
  "Common_h_PerFrameConstants =
    [(cpp_CMatrix4x4, ''cameraMatrix''),
     (cpp_CMatrix4x4, ''viewMatrix''),
     (cpp_CMatrix4x4, ''projectionMatrix''),
     (cpp_CMatrix4x4, ''viewProjectionMatrix''),
     (cpp_CVector3, ''light1Position''),
     (cpp_float, ''viewportWidth''),
     (cpp_CVector3, ''light1Colour''),
     (cpp_float, ''viewportHeight''),
     (cpp_CVector3, ''light2Position''),
     (cpp_float, ''padding1''),
     (cpp_CVector3, ''light2Colour''),
     (cpp_float, ''padding2''),
     (cpp_CVector3, ''ambientColour''),
     (cpp_float, ''specularPower''),
     (cpp_CVector3, ''cameraPosition''),
     (cpp_float, ''padding3''),
     (cpp_float, ''waterPlaneY''),
     (cpp_float, ''waveScale''),
     (cpp_CVector2, ''waterMovement'')]"

definition Common_hlsli_PerFrameConstants :: "(hlsl_type \<times> string) list" where
  "Common_hlsli_PerFrameConstants =
    [(hlsl_float4x4, ''gCameraMatrix''),
     (hlsl_float4x4, ''gViewMatrix''),
     (hlsl_float4x4, ''gProjectionMatrix''),
     (hlsl_float4x4, ''gViewProjectionMatrix''),
     (hlsl_float3, ''gLight1Position''),
     (hlsl_float, ''gViewportWidth''),
     (hlsl_float3, ''gLight1Colour''),
     (hlsl_float, ''gViewportHeight''),
     (hlsl_float3, ''gLight2Position''),
     (hlsl_float, ''padding1''),
     (hlsl_float3, ''gLight2Colour''),
     (hlsl_float, ''padding2''),
     (hlsl_float3, ''gAmbientColour''),
     (hlsl_float, ''gSpecularPower''),
     (hlsl_float3, ''gCameraPosition''),
     (hlsl_float, ''padding3''),
     (hlsl_float, ''gWaterPlaneY''),
     (hlsl_float, ''gWaveScale''),
     (hlsl_float2, ''gWaterMovement'')]"

text \<open>
  Sizes in bytes. A C++ member of these types is a \<^verbatim>\<open>float\<close> or a class of \<^verbatim>\<open>float\<close>s and
  is aligned to 4 bytes; the members of a structure follow each other, each at the next
  offset that its alignment allows.
\<close>

fun cpp_sizeof :: "cpp_type \<Rightarrow> nat" where
  "cpp_sizeof cpp_float = 4"
| "cpp_sizeof cpp_CVector2 = 8"
| "cpp_sizeof cpp_CVector3 = 12"
| "cpp_sizeof cpp_CMatrix4x4 = 64"

definition cpp_alignof :: "cpp_type \<Rightarrow> nat" where
  "cpp_alignof t = 4"

definition round_up :: "nat \<Rightarrow> nat \<Rightarrow> nat" where
  "round_up a k = ((a + k - 1) div k) * k"

fun cpp_layout :: "nat \<Rightarrow> (cpp_type \<times> string) list \<Rightarrow> (string \<times> nat \<times> nat) list" where
  "cpp_layout off [] = []"
| "cpp_layout off ((t, n) # ms) =
    (let ofs = round_up off (cpp_alignof t) in (n, ofs, cpp_sizeof t) # cpp_layout (ofs + cpp_sizeof t) ms)"

text \<open>
  The packing of a constant buffer: a variable is placed at the next free byte, but a
  variable that would cross a 16-byte register boundary starts a new register, and a
  matrix always starts a new register (and fills four of them).
\<close>

fun hlsl_sizeof :: "hlsl_type \<Rightarrow> nat" where
  "hlsl_sizeof hlsl_float = 4"
| "hlsl_sizeof hlsl_float2 = 8"
| "hlsl_sizeof hlsl_float3 = 12"
| "hlsl_sizeof hlsl_float4x4 = 64"

fun hlsl_layout :: "nat \<Rightarrow> (hlsl_type \<times> string) list \<Rightarrow> (string \<times> nat \<times> nat) list" where
  "hlsl_layout off [] = []"
| "hlsl_layout off ((t, n) # ms) =
    (let ofs = (if t = hlsl_float4x4 \<or> 16 < off mod 16 + hlsl_sizeof t then round_up off 16 else off)
     in (n, ofs, hlsl_sizeof t) # hlsl_layout (ofs + hlsl_sizeof t) ms)"

text \<open>The HLSL type and the HLSL name that stand for a C++ type and a C++ name.\<close>

fun hlsl_of_cpp :: "cpp_type \<Rightarrow> hlsl_type" where
  "hlsl_of_cpp cpp_float = hlsl_float"
| "hlsl_of_cpp cpp_CVector2 = hlsl_float2"
| "hlsl_of_cpp cpp_CVector3 = hlsl_float3"
| "hlsl_of_cpp cpp_CMatrix4x4 = hlsl_float4x4"

definition capital :: "char \<Rightarrow> char" where
  "capital c = char_of (of_char c - (32 :: nat))"

definition hlsl_name :: "string \<Rightarrow> string" where
  "hlsl_name n = (if take 7 n = ''padding'' then n else CHR ''g'' # capital (hd n) # tl n)"

text \<open>No two members share a byte: each ends where or before every later one starts.\<close>

definition no_collision :: "(string \<times> nat \<times> nat) list \<Rightarrow> bool" where
  "no_collision l = sorted_wrt (\<lambda>(n, ofs, size_a) (n', ofs', size_b). ofs + size_a \<le> ofs') l"

text \<open>
  The bytes of the block, one \<^verbatim>\<open>float\<close> per 4 bytes: the image of the C++ structure, which
  \<^verbatim>\<open>UpdateConstantBuffer\<close> copies to the GPU, and what the shader reads for each variable
  of the constant buffer. A byte offset no member wrote is \<open>None\<close>.
\<close>

fun write_floats :: "nat \<Rightarrow> real list \<Rightarrow> (nat \<rightharpoonup> real) \<Rightarrow> (nat \<rightharpoonup> real)" where
  "write_floats ofs [] b = b"
| "write_floats ofs (v # vs) b = write_floats (ofs + 4) vs (b(ofs \<mapsto> v))"

fun read_floats :: "nat \<Rightarrow> nat \<Rightarrow> (nat \<rightharpoonup> real) \<Rightarrow> real option list" where
  "read_floats ofs 0 b = []"
| "read_floats ofs (Suc k) b = b ofs # read_floats (ofs + 4) k b"

definition floats_of_CMatrix4x4 :: "CMatrix4x4 \<Rightarrow> real list" where
  "floats_of_CMatrix4x4 m =
    [e00 m, e01 m, e02 m, e03 m, e10 m, e11 m, e12 m, e13 m,
     e20 m, e21 m, e22 m, e23 m, e30 m, e31 m, e32 m, e33 m]"

definition floats_of_CVector3 :: "CVector3 \<Rightarrow> real list" where
  "floats_of_CVector3 v = [x v, y v, z v]"

definition floats_of_CVector2 :: "CVector2 \<Rightarrow> real list" where
  "floats_of_CVector2 v = [x v, y v]"

definition PerFrameConstants_members :: "PerFrameConstants \<Rightarrow> (string \<times> real list) list" where
  "PerFrameConstants_members c =
    [(''cameraMatrix'', floats_of_CMatrix4x4 (cameraMatrix c)),
     (''viewMatrix'', floats_of_CMatrix4x4 (viewMatrix c)),
     (''projectionMatrix'', floats_of_CMatrix4x4 (projectionMatrix c)),
     (''viewProjectionMatrix'', floats_of_CMatrix4x4 (viewProjectionMatrix c)),
     (''light1Position'', floats_of_CVector3 (light1Position c)),
     (''viewportWidth'', [viewportWidth c]),
     (''light1Colour'', floats_of_CVector3 (light1Colour c)),
     (''viewportHeight'', [viewportHeight c]),
     (''light2Position'', floats_of_CVector3 (light2Position c)),
     (''padding1'', [padding1 c]),
     (''light2Colour'', floats_of_CVector3 (light2Colour c)),
     (''padding2'', [padding2 c]),
     (''ambientColour'', floats_of_CVector3 (ambientColour c)),
     (''specularPower'', [specularPower c]),
     (''cameraPosition'', floats_of_CVector3 (cameraPosition c)),
     (''padding3'', [padding3 c]),
     (''waterPlaneY'', [waterPlaneY c]),
     (''waveScale'', [waveScale c]),
     (''waterMovement'', floats_of_CVector2 (waterMovement c))]"

fun write_members :: "(string \<times> nat \<times> nat) list \<Rightarrow> (string \<times> real list) list \<Rightarrow> (nat \<rightharpoonup> real) \<Rightarrow> (nat \<rightharpoonup> real)" where
  "write_members ((n, ofs, size_a) # l) ((n', vs) # ms) b = write_members l ms (write_floats ofs vs b)"
| "write_members l ms b = b"

definition struct_image :: "PerFrameConstants \<Rightarrow> (nat \<rightharpoonup> real)" where
  "struct_image c =
    write_members (cpp_layout 0 Common_h_PerFrameConstants) (PerFrameConstants_members c) Map.empty"

definition cbuffer_read :: "(nat \<rightharpoonup> real) \<Rightarrow> (string \<times> real option list) list" where
  "cbuffer_read b =
    map (\<lambda>(n, ofs, size_a). (n, read_floats ofs (size_a div 4) b)) (hlsl_layout 0 Common_hlsli_PerFrameConstants)"

section \<open>Theorems\<close>

text \<open>
  C1. The vertex displacement of the water-surface vertex shader is the wave height
  field: the alpha channel sampled at the scales 0.5, 1, 2, 4 paired with the speeds
  0.5, 1, 1.7, 2.6, the four heights summed, multiplied by 0.25, reduced by 0.5 and
  multiplied by MaxWaveHeight and the wave scale, added to the vertex Y; the other
  components of the vertex are unchanged. For every texture, vertex, movement offset
  and wave scale.
\<close>

theorem WaterSurface_vs_displacement:
  "WaterSurface_vs_modelPosition tex cb input =
     \<lparr>x = x (position input),
      y = y (position input) + wave_height_field tex (BasicVertex.uv input) (gWaterMovement cb) (gWaveScale cb),
      z = z (position input),
      w = 1\<rparr>"
  by (simp add: WaterSurface_vs_modelPosition_def WaterSurface_vs_height_def wave_height_field_def
      octaves_def octave_height_def smul2_def add2_def mul2_def Let_def
      WaterSize1_def WaterSize2_def WaterSize3_def WaterSize4_def
      WaterSpeed1_def WaterSpeed2_def WaterSpeed3_def WaterSpeed4_def mult.commute)

text \<open>
  C2. In the refraction pixel shader the depth is the sampled water height minus the
  world Y of the pixel; the pixel is discarded exactly when that depth is negative, and
  a colour is written exactly when the depth is zero or more.
\<close>

theorem RefractedPixelLighting_ps_discard_iff:
  "RefractedPixelLighting_ps_objectDepth tex cb input =
      x (tex (RefractedPixelLighting_ps_screenUV cb input)) - y (LightingPixelShaderInput.worldPosition input)
   \<and> (RefractedPixelLighting_ps PL tex cb input = None)
      = (RefractedPixelLighting_ps_objectDepth tex cb input < 0)
   \<and> (\<exists>c. RefractedPixelLighting_ps PL tex cb input = Some c)
      = (0 \<le> RefractedPixelLighting_ps_objectDepth tex cb input)"
  by (auto simp add: RefractedPixelLighting_ps_def RefractedPixelLighting_ps_objectDepth_def clip_def Let_def)

text \<open>
  C3. The darken factor \<open>saturate (depth / WaterExtinction)\<close> does not decrease when the
  depth grows, in each channel; a channel is exactly 1 once depth / extinction of that
  channel is 1 or more; at depth 5, with the extinction (9, 7, 3), the factors are
  0.556, 0.714 and 1.0 to three decimals.
\<close>

theorem depthDarken_monotone_saturating:
  "WaterExtinction = \<lparr>x = 9, y = 7, z = 3\<rparr>
   \<and> (d1 \<le> d2 \<longrightarrow> x (depthDarken d1) \<le> x (depthDarken d2)
                \<and> y (depthDarken d1) \<le> y (depthDarken d2)
                \<and> z (depthDarken d1) \<le> z (depthDarken d2))
   \<and> (1 \<le> dr / x WaterExtinction \<longrightarrow> x (depthDarken dr) = 1)
   \<and> (1 \<le> dg / y WaterExtinction \<longrightarrow> y (depthDarken dg) = 1)
   \<and> (1 \<le> db / z WaterExtinction \<longrightarrow> z (depthDarken db) = 1)
   \<and> \<bar>x (depthDarken 5) - 0.556\<bar> < 0.0005
   \<and> \<bar>y (depthDarken 5) - 0.714\<bar> < 0.0005
   \<and> z (depthDarken 5) = 1.0"
  by (simp add: depthDarken_def saturate3_def sdiv3_def saturate_def WaterExtinction_def)

theorem depthDarken_monotone_saturating_witness:
  "(1::real) \<le> 5 \<and> x (depthDarken 1) \<le> x (depthDarken 5)
   \<and> y (depthDarken 1) \<le> y (depthDarken 5)
   \<and> z (depthDarken 1) \<le> z (depthDarken 5)
   \<and> 1 \<le> 9 / x WaterExtinction \<and> x (depthDarken 9) = 1
   \<and> 1 \<le> 7 / y WaterExtinction \<and> y (depthDarken 7) = 1
   \<and> 1 \<le> 3 / z WaterExtinction \<and> z (depthDarken 3) = 1"
  using depthDarken_monotone_saturating [of 1 5 9 7 3]
  by (simp add: WaterExtinction_def)

text \<open>
  C4. For a pixel that is not discarded, the alpha the refraction pixel shader writes
  is min (depth / MaxDistortionDistance) 1 with MaxDistortionDistance = 40: it lies in
  [0, 1], is 0 at depth 0 and is 1 at depths of 40 or more.
\<close>

theorem RefractedPixelLighting_ps_alpha:
  assumes "RefractedPixelLighting_ps PL tex cb input = Some c"
  shows "w c = min (RefractedPixelLighting_ps_objectDepth tex cb input / MaxDistortionDistance) 1
   \<and> MaxDistortionDistance = 40
   \<and> 0 \<le> w c \<and> w c \<le> 1
   \<and> (RefractedPixelLighting_ps_objectDepth tex cb input = 0 \<longrightarrow> w c = 0)
   \<and> (40 \<le> RefractedPixelLighting_ps_objectDepth tex cb input \<longrightarrow> w c = 1)"
proof -
  let ?d = "RefractedPixelLighting_ps_objectDepth tex cb input"
  from assms have nonneg: "0 \<le> ?d"
    by (simp add: RefractedPixelLighting_ps_def clip_def Let_def split: if_splits)
  from assms nonneg have alpha: "w c = saturate (?d / MaxDistortionDistance)"
    by (auto simp add: RefractedPixelLighting_ps_def clip_def Let_def float4_of_def)
  from nonneg have "saturate (?d / MaxDistortionDistance) = min (?d / MaxDistortionDistance) 1"
    by (simp add: saturate_def MaxDistortionDistance_def min_def)
  with alpha nonneg show ?thesis
    by (simp add: MaxDistortionDistance_def min_def)
qed

theorem RefractedPixelLighting_ps_alpha_witness:
  "\<forall>PL cb pp wn t. \<exists>c.
     RefractedPixelLighting_ps PL (\<lambda>_. \<lparr>x = 10, y = 0, z = 0, w = 0\<rparr>) cb
        \<lparr>LightingPixelShaderInput.projectedPosition = pp,
          LightingPixelShaderInput.worldPosition = \<lparr>x = 0, y = 5, z = 0\<rparr>,
          worldNormal = wn, LightingPixelShaderInput.uv = t\<rparr> = Some c
     \<and> w c = 1 / 8"
proof (intro allI)
  fix PL :: "LightingPixelShaderInput \<Rightarrow> float4" and cb :: cbuffer_PerFrameConstants
    and pp :: float4 and wn :: float3 and t :: float2
  let ?tex = "\<lambda>_::float2. \<lparr>x = 10, y = 0, z = 0, w = (0::real)\<rparr>"
  let ?input = "\<lparr>LightingPixelShaderInput.projectedPosition = pp,
          LightingPixelShaderInput.worldPosition = \<lparr>x = 0, y = 5, z = 0\<rparr>,
          worldNormal = wn, LightingPixelShaderInput.uv = t\<rparr>"
  have depth: "RefractedPixelLighting_ps_objectDepth ?tex cb ?input = 5"
    by (simp add: RefractedPixelLighting_ps_objectDepth_def)
  then obtain c where written: "RefractedPixelLighting_ps PL ?tex cb ?input = Some c"
    by (simp add: RefractedPixelLighting_ps_def clip_def)
  from RefractedPixelLighting_ps_alpha [OF written] depth have "w c = 1 / 8"
    by (simp add: MaxDistortionDistance_def)
  with written show "\<exists>c. RefractedPixelLighting_ps PL ?tex cb ?input = Some c \<and> w c = 1 / 8"
    by blast
qed

subsection \<open>The camera\<close>

text \<open>
  \<open>fl32\<close> on known values: \<^verbatim>\<open>0.1f\<close> is \<open>13421773 / 2 ^ 27\<close> (the bits \<^verbatim>\<open>0x3DCCCCCD\<close>); a value
  half way between two binary32 numbers goes to the one with the even significand.
\<close>

lemma fl32_examples:
  "fl32 0 = 0"
  "fl32 (1 / 10) = 13421773 / 2 ^ 27"
  "fl32 (1 + 1 / 2 ^ 24) = 1"
  "fl32 (1 + 3 / 2 ^ 24) = 1 + 1 / 2 ^ 22"
  by code_simp+

text \<open>
  C5, as the code has it. Mirroring twice in the same water plane restores every
  element of the matrix other than the position Y \<open>e31\<close>, the Y components \<open>e01\<close>, \<open>e11\<close>,
  \<open>e21\<close> of the three axes among them. When twice the plane height is not beyond
  \<open>FLT_MAX\<close>, and the position Y and the difference \<open>2 * waterY - Y\<close> are finite binary32
  numbers (the subtraction is exact and does not overflow), both mirrorings give a
  number and the second gives back the pose.
\<close>

theorem reflect_twice:
  "e01 (reflect (reflect m waterY) waterY) = e01 m
   \<and> e11 (reflect (reflect m waterY) waterY) = e11 m
   \<and> e21 (reflect (reflect m waterY) waterY) = e21 m
   \<and> (reflect (reflect m waterY) waterY)\<lparr>e31 := e31 m\<rparr> = m
   \<and> (\<bar>waterY * 2\<bar> \<le> FLT_MAX \<and> binary32 (e31 m) \<and> binary32 (waterY * 2 - e31 m)
        \<longrightarrow> reflect_checked m waterY = Some (reflect m waterY)
          \<and> reflect_checked (reflect m waterY) waterY = Some m
          \<and> reflect (reflect m waterY) waterY = m)"
proof -
  have others: "(reflect (reflect m waterY) waterY)\<lparr>e31 := e31 m\<rparr> = m"
    by (simp add: reflect_def fsub_def Let_def)
  have exact: "reflect_checked m waterY = Some (reflect m waterY)
      \<and> reflect_checked (reflect m waterY) waterY = Some m
      \<and> reflect (reflect m waterY) waterY = m"
    if range: "\<bar>waterY * 2\<bar> \<le> FLT_MAX" and pos: "binary32 (e31 m)"
      and diff: "binary32 (waterY * 2 - e31 m)"
  proof -
    from diff have d: "fsub (waterY * 2) (e31 m) = waterY * 2 - e31 m"
      and dr: "\<bar>waterY * 2 - e31 m\<bar> \<le> FLT_MAX"
      by (simp_all add: binary32_def fsub_def)
    from pos have p: "fl32 (e31 m) = e31 m" and pr: "\<bar>e31 m\<bar> \<le> FLT_MAX"
      by (simp_all add: binary32_def)
    have first: "reflect_checked m waterY = Some (reflect m waterY)"
      using range d dr by (simp add: reflect_checked_def)
    have y1: "e31 (reflect m waterY) = waterY * 2 - e31 m"
      using d by (simp add: reflect_def Let_def)
    have returned: "fsub (waterY * 2) (e31 (reflect m waterY)) = e31 m"
      using y1 p by (simp add: fsub_def)
    have twice: "reflect (reflect m waterY) waterY = m"
      using d p by (simp add: reflect_def fsub_def Let_def)
    have second: "reflect_checked (reflect m waterY) waterY = Some m"
      using range returned pr twice by (simp add: reflect_checked_def)
    from first second twice show ?thesis by simp
  qed
  have axes: "e01 (reflect (reflect m waterY) waterY) = e01 m"
      "e11 (reflect (reflect m waterY) waterY) = e11 m"
      "e21 (reflect (reflect m waterY) waterY) = e21 m"
    by (simp_all add: reflect_def fsub_def Let_def)
  from axes others exact show ?thesis by blast
qed

text \<open>The camera at \<open>(-80, 50, 200)\<close>, unrotated, over the water at height 10.\<close>

theorem reflect_twice_witness:
  "\<bar>10 * 2\<bar> \<le> FLT_MAX \<and> binary32 50 \<and> binary32 (10 * 2 - 50)
   \<and> reflect_checked
        \<lparr>e00 = 1, e01 = 0, e02 = 0, e03 = 0,
         e10 = 0, e11 = 1, e12 = 0, e13 = 0,
         e20 = 0, e21 = 0, e22 = 1, e23 = 0,
         e30 = - 80, e31 = 50, e32 = 200, e33 = 1\<rparr> 10
     = Some \<lparr>e00 = 1, e01 = 0, e02 = 0, e03 = 0,
         e10 = 0, e11 = - 1, e12 = 0, e13 = 0,
         e20 = 0, e21 = 0, e22 = 1, e23 = 0,
         e30 = - 80, e31 = - 30, e32 = 200, e33 = 1\<rparr>
   \<and> reflect_checked
        \<lparr>e00 = 1, e01 = 0, e02 = 0, e03 = 0,
         e10 = 0, e11 = - 1, e12 = 0, e13 = 0,
         e20 = 0, e21 = 0, e22 = 1, e23 = 0,
         e30 = - 80, e31 = - 30, e32 = 200, e33 = 1\<rparr> 10
     = Some \<lparr>e00 = 1, e01 = 0, e02 = 0, e03 = 0,
         e10 = 0, e11 = 1, e12 = 0, e13 = 0,
         e20 = 0, e21 = 0, e22 = 1, e23 = 0,
         e30 = - 80, e31 = 50, e32 = 200, e33 = 1\<rparr>"
proof -
  let ?m = "\<lparr>e00 = 1, e01 = 0, e02 = 0, e03 = 0,
         e10 = 0, e11 = 1, e12 = 0, e13 = 0,
         e20 = 0, e21 = 0, e22 = 1, e23 = 0,
         e30 = - 80, e31 = 50, e32 = 200, e33 = 1\<rparr> :: CMatrix4x4"
  have a: "fl32 50 = 50" by code_simp
  have b: "fl32 (10 * 2 - 50) = 10 * 2 - 50" by code_simp
  have range: "\<bar>10 * 2\<bar> \<le> FLT_MAX" by (simp add: FLT_MAX_def)
  have pos: "binary32 50" using a by (simp add: binary32_def FLT_MAX_def)
  have diff: "binary32 (10 * 2 - 50)" using b by (simp add: binary32_def FLT_MAX_def)
  have mirrored: "reflect ?m 10 = \<lparr>e00 = 1, e01 = 0, e02 = 0, e03 = 0,
         e10 = 0, e11 = - 1, e12 = 0, e13 = 0,
         e20 = 0, e21 = 0, e22 = 1, e23 = 0,
         e30 = - 80, e31 = - 30, e32 = 200, e33 = 1\<rparr>"
    using b by (simp add: reflect_def fsub_def Let_def)
  from reflect_twice [of ?m 10] range pos diff mirrored show ?thesis by simp
qed

text \<open>
  Beyond the range: with the water plane at height \<open>2 ^ 127\<close> twice the plane height is
  beyond \<open>FLT_MAX\<close>, and the mirrored position Y is not a number.
\<close>

lemma reflect_checked_overflow:
  "reflect_checked
      \<lparr>e00 = 1, e01 = 0, e02 = 0, e03 = 0,
       e10 = 0, e11 = 1, e12 = 0, e13 = 0,
       e20 = 0, e21 = 0, e22 = 1, e23 = 0,
       e30 = 0, e31 = 0, e32 = 0, e33 = 1\<rparr> (2 ^ 127) = None"
  by (simp add: reflect_checked_def FLT_MAX_def)

text \<open>
  C5 as stated fails. The water plane at height 1 and an unrotated camera at height
  \<open>1 / 2 ^ 25\<close>, a binary32 number: \<open>1 * 2 - 1 / 2 ^ 25\<close> lies between the neighbouring binary32
  numbers \<open>2 - 1 / 2 ^ 23\<close> and \<open>2\<close> and rounds to \<open>2\<close>, so the mirrored camera is at
  height 2 and the camera mirrored twice is at height \<open>1 * 2 - 2 = 0\<close>.
\<close>

theorem reflect_twice_counterexample:
  "fl32 (1 / 2 ^ 25) = 1 / 2 ^ 25
   \<and> e31 (reflect
        \<lparr>e00 = 1, e01 = 0, e02 = 0, e03 = 0,
         e10 = 0, e11 = 1, e12 = 0, e13 = 0,
         e20 = 0, e21 = 0, e22 = 1, e23 = 0,
         e30 = 0, e31 = 1 / 2 ^ 25, e32 = 0, e33 = 1\<rparr> 1) = 2
   \<and> e31 (reflect (reflect
        \<lparr>e00 = 1, e01 = 0, e02 = 0, e03 = 0,
         e10 = 0, e11 = 1, e12 = 0, e13 = 0,
         e20 = 0, e21 = 0, e22 = 1, e23 = 0,
         e30 = 0, e31 = 1 / 2 ^ 25, e32 = 0, e33 = 1\<rparr> 1) 1) = 0
   \<and> reflect (reflect
        \<lparr>e00 = 1, e01 = 0, e02 = 0, e03 = 0,
         e10 = 0, e11 = 1, e12 = 0, e13 = 0,
         e20 = 0, e21 = 0, e22 = 1, e23 = 0,
         e30 = 0, e31 = 1 / 2 ^ 25, e32 = 0, e33 = 1\<rparr> 1) 1
     \<noteq> \<lparr>e00 = 1, e01 = 0, e02 = 0, e03 = 0,
         e10 = 0, e11 = 1, e12 = 0, e13 = 0,
         e20 = 0, e21 = 0, e22 = 1, e23 = 0,
         e30 = 0, e31 = 1 / 2 ^ 25, e32 = 0, e33 = 1\<rparr>"
proof -
  have a: "fl32 (1 / 2 ^ 25) = 1 / 2 ^ 25" by code_simp
  have b: "fl32 (1 * 2 - 1 / 2 ^ 25) = 2" by code_simp
  have c: "fl32 (1 * 2 - 2) = 0" by code_simp
  show ?thesis using a b c by (simp add: reflect_def fsub_def Let_def)
qed

subsection \<open>The frame\<close>

lemma lights_upt: "[0..<NUM_LIGHTS] = [0, 1]"
  by (simp add: NUM_LIGHTS_def upt_rec)

lemmas body_defs = RenderSceneFromCamera_def RenderSceneFromCamera_body_def prepare_common_states_def
  render_water_height_def render_refracted_scene_def render_reflected_scene_def render_main_scene_def
  RenderLitModels_def RenderOtherModels_def lights_upt

lemmas call_defs = OMSetRenderTargets_def ClearRenderTargetView_def ClearDepthStencilView_def
  PSSetShaderResources_def VSSetShaderResources_def PSSetSamplers_def VSSetSamplers_def
  OMSetBlendState_def OMSetDepthStencilState_def RSSetState_def VSSetShader_def PSSetShader_def
  GSSetShader_nullptr_def Render_def set_objectColour_def SelectCamera_def
  save_originalMatrix_def reflect_camera_def restore_originalMatrix_def

text \<open>
  C6. The camera after the reflection pass, and after the whole frame, is the camera
  before it: the world matrix is saved in \<open>originalMatrix\<close> before the mirroring and
  assigned back after the pass. The mirroring writes the elements \<open>e01\<close>, \<open>e11\<close>, \<open>e21\<close>
  and \<open>e31\<close> of the world matrix and nothing else; the draw calls of the reflection pass
  see the mirrored matrix, every other draw call and the constant buffer after the frame
  see the matrix of the camera.
\<close>

theorem RenderSceneFromCamera_camera_restored:
  "gCamera (run (render_reflected_scene cls) s) = gCamera s
   \<and> originalMatrix (run (render_reflected_scene cls) s) = WorldMatrix (gCamera s)
   \<and> gCamera (RenderSceneFromCamera cls s) = gCamera s
   \<and> (reflect m waterY)\<lparr>e01 := e01 m, e11 := e11 m, e21 := e21 m, e31 := e31 m\<rparr> = m
   \<and> set [d_cameraMatrix d. d \<leftarrow> frame_draws cls s, d_target d = Some gReflectionRenderTarget]
      = {reflect (WorldMatrix (gCamera s)) (y (gWater_Position s))}
   \<and> set [d_cameraMatrix d. d \<leftarrow> frame_draws cls s, d_target d \<noteq> Some gReflectionRenderTarget]
      = {WorldMatrix (gCamera s)}
   \<and> cameraMatrix (gPerFrameConstantBuffer (RenderSceneFromCamera cls s)) = WorldMatrix (gCamera s)"
  by (simp add: frame_draws_def body_defs call_defs Let_def reflect_def)

subsection \<open>The update\<close>

lemma updates_snoc: "updates (inputs @ [(KeyHeld, frameTime)]) s = UpdateScene KeyHeld frameTime (updates inputs s)"
  by (induction inputs arbitrary: s) auto

lemma frame_uploads_waveScale:
  "waveScale (gPerFrameConstantBuffer (RenderSceneFromCamera cls s)) = waveScale (gPerFrameConstants s)"
  by (simp add: body_defs call_defs Let_def)

lemma UpdateScene_clamps:
  "0 \<le> waveScale (gPerFrameConstants (UpdateScene KeyHeld frameTime s))"
  by (simp add: UpdateScene_def Let_def)

text \<open>
  C7. After an update step from any state, with any keys held and any frame time,
  the wave scale in \<open>gPerFrameConstants\<close> is at least 0; so it is after the last of any
  sequence of update steps, and so is the wave scale the next frame copies to the
  constant buffer on the GPU. The static \<open>waveScale\<close> the next step starts from is at
  least 0 as well.
\<close>

theorem UpdateScene_waveScale_nonneg:
  "0 \<le> waveScale (gPerFrameConstants (UpdateScene KeyHeld frameTime s))
   \<and> 0 \<le> static_waveScale (UpdateScene KeyHeld frameTime s)
   \<and> 0 \<le> waveScale (gPerFrameConstants (updates (inputs @ [(KeyHeld, frameTime)]) s))
   \<and> 0 \<le> waveScale (gPerFrameConstantBuffer (RenderSceneFromCamera cls (UpdateScene KeyHeld frameTime s)))"
proof -
  have "0 \<le> static_waveScale (UpdateScene KeyHeld frameTime s)"
    by (simp add: UpdateScene_def Let_def)
  then show ?thesis
    by (simp add: updates_snoc frame_uploads_waveScale UpdateScene_clamps)
qed

subsection \<open>The passes of a frame\<close>

lemma hazard_binds:
  "hazard s = (case OM_RenderTargets s of None \<Rightarrow> False
     | Some target \<Rightarrow> binds_outside {} (PS_ShaderResources s) (rtv_texture target)
          \<or> binds_outside {} (VS_ShaderResources s) (rtv_texture target))"
  by (auto simp add: hazard_def binds_outside_def split: option.splits)

lemma binds_outside_upd:
  "binds_outside E (f(slot := v)) t =
     ((slot < SRV_SLOT_COUNT \<and> slot \<notin> E \<and> reads_texture v t) \<or> binds_outside (insert slot E) f t)"
  by (auto simp add: binds_outside_def)

lemma views_a_target_iff: "views_a_target v = (\<exists>target. reads_texture v (rtv_texture target))"
proof
  assume "views_a_target v"
  then consider "reads_texture v (rtv_texture gWaterHeightRenderTarget)"
    | "reads_texture v (rtv_texture gReflectionRenderTarget)"
    | "reads_texture v (rtv_texture gRefractionRenderTarget)"
    | "reads_texture v (rtv_texture gBackBufferRenderTarget)"
    by (auto simp add: views_a_target_def)
  then show "\<exists>target. reads_texture v (rtv_texture target)"
    by cases blast+
next
  assume "\<exists>target. reads_texture v (rtv_texture target)"
  then obtain target where "reads_texture v (rtv_texture target)" ..
  then show "views_a_target v"
    by (cases target) (simp_all add: views_a_target_def)
qed

lemma frame_ready_binds:
  "frame_ready s = (\<forall>target. \<not> binds_outside {} (PS_ShaderResources s) (rtv_texture target)
       \<and> \<not> binds_outside {} (VS_ShaderResources s) (rtv_texture target))"
  by (auto simp add: frame_ready_def binds_outside_def views_a_target_iff)

lemma frame_ready_base:
  assumes "frame_ready s"
  shows "binds_outside E (PS_ShaderResources s) (rtv_texture target) = False"
    and "binds_outside E (VS_ShaderResources s) (rtv_texture target) = False"
  using assms by (auto simp add: frame_ready_def binds_outside_def views_a_target_iff)

lemma loaded_texture_no_target:
  "gWaterNormalMap \<noteq> rtv_texture target"
  "gLightDiffuseMap \<noteq> rtv_texture target"
  "gSkyDiffuseSpecularMap \<noteq> rtv_texture target"
  "gGroundDiffuseSpecularMap \<noteq> rtv_texture target"
  "gTrollDiffuseSpecularMap \<noteq> rtv_texture target"
  "gCrateDiffuseSpecularMap \<noteq> rtv_texture target"
  by (cases target; simp)+

lemma no_hazard:
  assumes "frame_ready s"
  shows "always (\<lambda>s. \<not> hazard s) (RenderSceneFromCamera_body cls) s"
  using frame_ready_base [OF assms, of _ gWaterHeightRenderTarget]
    frame_ready_base [OF assms, of _ gReflectionRenderTarget]
    frame_ready_base [OF assms, of _ gRefractionRenderTarget]
    frame_ready_base [OF assms, of _ gBackBufferRenderTarget]
    frame_ready_base [OF assms]
  by (simp add: body_defs call_defs Let_def hazard_binds binds_outside_upd reads_texture_def
      loaded_texture_no_target SRV_SLOT_COUNT_def split: option.split)

lemma frame_ready_after:
  assumes "frame_ready s"
  shows "frame_ready (RenderSceneFromCamera cls s)"
  unfolding frame_ready_binds [of "RenderSceneFromCamera cls s"]
  using frame_ready_base [OF assms]
  by (simp add: body_defs call_defs Let_def
      binds_outside_upd reads_texture_def loaded_texture_no_target SRV_SLOT_COUNT_def)

lemma frame_ready_slot:
  assumes "frame_ready s" and "slot < SRV_SLOT_COUNT"
  shows "PS_ShaderResources s slot \<noteq> Some gWaterHeightSRV"
  using assms by (auto simp add: frame_ready_def views_a_target_def reads_texture_def)

lemma pass_order:
  assumes "frame_ready s"
  shows "map (\<lambda>d. (d_target d, d_textures d 2 = Some gWaterHeightSRV)) (frame_draws cls s) =
     [(Some gWaterHeightRenderTarget, False)]
     @ replicate 6 (Some gRefractionRenderTarget, True)
     @ replicate 6 (Some gReflectionRenderTarget, True)
     @ replicate 7 (Some gBackBufferRenderTarget, False)"
  using frame_ready_slot [OF assms, of 2]
  by (simp add: frame_draws_def body_defs call_defs Let_def SRV_SLOT_COUNT_def numeral_eq_Suc)

lemma height_map_detached: "PS_ShaderResources (RenderSceneFromCamera cls s) 2 = None"
  by (simp add: body_defs call_defs Let_def)

text \<open>
  C8. In a frame that starts with no view of a render-target texture bound to a
  shader slot (as a new context is, and as every frame leaves the context): the draw
  calls go to the water height map, then to the refraction texture, then to the
  reflection texture, then to the back buffer; the water height map is not in slot 2 at
  the draw call of the height pass and is in slot 2 at every draw call of the refraction
  and reflection passes; slot 2 is empty when the frame ends; and before and after every
  statement of the frame no texture is bound as render target and as shader resource at
  once.
\<close>

theorem RenderSceneFromCamera_pass_order:
  assumes "frame_ready s"
  shows "map (\<lambda>d. (d_target d, d_textures d 2 = Some gWaterHeightSRV)) (frame_draws cls s) =
       [(Some gWaterHeightRenderTarget, False)]
       @ replicate 6 (Some gRefractionRenderTarget, True)
       @ replicate 6 (Some gReflectionRenderTarget, True)
       @ replicate 7 (Some gBackBufferRenderTarget, False)
   \<and> PS_ShaderResources (RenderSceneFromCamera cls s) 2 = None
   \<and> always (\<lambda>s. \<not> hazard s) (RenderSceneFromCamera_body cls) s
   \<and> frame_ready (RenderSceneFromCamera cls s)"
  using assms pass_order no_hazard frame_ready_after height_map_detached
  by blast

text \<open>A context with every shader slot empty.\<close>

theorem RenderSceneFromCamera_pass_order_witness:
  "\<forall>cls s.
     frame_ready (s\<lparr>PS_ShaderResources := \<lambda>slot. None, VS_ShaderResources := \<lambda>slot. None\<rparr>)
     \<and> map (\<lambda>d. (d_target d, d_textures d 2 = Some gWaterHeightSRV))
          (frame_draws cls (s\<lparr>PS_ShaderResources := \<lambda>slot. None, VS_ShaderResources := \<lambda>slot. None\<rparr>)) =
         [(Some gWaterHeightRenderTarget, False)]
         @ replicate 6 (Some gRefractionRenderTarget, True)
         @ replicate 6 (Some gReflectionRenderTarget, True)
         @ replicate 7 (Some gBackBufferRenderTarget, False)
     \<and> always (\<lambda>s. \<not> hazard s) (RenderSceneFromCamera_body cls)
          (s\<lparr>PS_ShaderResources := \<lambda>slot. None, VS_ShaderResources := \<lambda>slot. None\<rparr>)
     \<and> frame_ready (RenderSceneFromCamera cls
          (s\<lparr>PS_ShaderResources := \<lambda>slot. None, VS_ShaderResources := \<lambda>slot. None\<rparr>))"
proof (intro allI)
  fix cls :: CameraClass and s :: Scene
  let ?s = "s\<lparr>PS_ShaderResources := \<lambda>slot. None, VS_ShaderResources := \<lambda>slot. None\<rparr>"
  have ready: "frame_ready ?s"
    by (simp add: frame_ready_def views_a_target_def reads_texture_def)
  from RenderSceneFromCamera_pass_order [OF ready, of cls] ready
  show "frame_ready ?s
     \<and> map (\<lambda>d. (d_target d, d_textures d 2 = Some gWaterHeightSRV)) (frame_draws cls ?s) =
         [(Some gWaterHeightRenderTarget, False)]
         @ replicate 6 (Some gRefractionRenderTarget, True)
         @ replicate 6 (Some gReflectionRenderTarget, True)
         @ replicate 7 (Some gBackBufferRenderTarget, False)
     \<and> always (\<lambda>s. \<not> hazard s) (RenderSceneFromCamera_body cls) ?s
     \<and> frame_ready (RenderSceneFromCamera cls ?s)"
    by blast
qed

text \<open>
  C10. The draw calls of a frame, by render target: the water mesh is drawn to the
  water height map and to the back buffer and to nothing else; the refraction texture
  and the reflection texture each receive the ground, the troll, the crate, the sky and
  the two lights, and no water.
\<close>

theorem RenderSceneFromCamera_water_draws:
  "[d_target d. d \<leftarrow> frame_draws cls s, d_model d = gWater]
     = [Some gWaterHeightRenderTarget, Some gBackBufferRenderTarget]
   \<and> [d_model d. d \<leftarrow> frame_draws cls s, d_target d = Some gWaterHeightRenderTarget]
     = [gWater]
   \<and> [d_model d. d \<leftarrow> frame_draws cls s, d_target d = Some gRefractionRenderTarget]
     = [gGround, gTroll, gCrate, gSky, gLights_model 0, gLights_model 1]
   \<and> [d_model d. d \<leftarrow> frame_draws cls s, d_target d = Some gReflectionRenderTarget]
     = [gGround, gTroll, gCrate, gSky, gLights_model 0, gLights_model 1]
   \<and> [d_model d. d \<leftarrow> frame_draws cls s, d_target d = Some gBackBufferRenderTarget]
     = [gGround, gTroll, gCrate, gWater, gSky, gLights_model 0, gLights_model 1]"
  by (simp add: frame_draws_def body_defs call_defs Let_def)

subsection \<open>The constant block\<close>

lemma cpp_table: "cpp_layout 0 Common_h_PerFrameConstants =
  [(''cameraMatrix'', 0, 64), (''viewMatrix'', 64, 64),
   (''projectionMatrix'', 128, 64), (''viewProjectionMatrix'', 192, 64),
   (''light1Position'', 256, 12), (''viewportWidth'', 268, 4),
   (''light1Colour'', 272, 12), (''viewportHeight'', 284, 4),
   (''light2Position'', 288, 12), (''padding1'', 300, 4),
   (''light2Colour'', 304, 12), (''padding2'', 316, 4),
   (''ambientColour'', 320, 12), (''specularPower'', 332, 4),
   (''cameraPosition'', 336, 12), (''padding3'', 348, 4),
   (''waterPlaneY'', 352, 4), (''waveScale'', 356, 4),
   (''waterMovement'', 360, 8)]"
  by code_simp

lemma hlsl_table: "hlsl_layout 0 Common_hlsli_PerFrameConstants =
  [(''gCameraMatrix'', 0, 64), (''gViewMatrix'', 64, 64),
   (''gProjectionMatrix'', 128, 64), (''gViewProjectionMatrix'', 192, 64),
   (''gLight1Position'', 256, 12), (''gViewportWidth'', 268, 4),
   (''gLight1Colour'', 272, 12), (''gViewportHeight'', 284, 4),
   (''gLight2Position'', 288, 12), (''padding1'', 300, 4),
   (''gLight2Colour'', 304, 12), (''padding2'', 316, 4),
   (''gAmbientColour'', 320, 12), (''gSpecularPower'', 332, 4),
   (''gCameraPosition'', 336, 12), (''padding3'', 348, 4),
   (''gWaterPlaneY'', 352, 4), (''gWaveScale'', 356, 4),
   (''gWaterMovement'', 360, 8)]"
  by code_simp

lemma capital_simps:
  "capital CHR ''c'' = CHR ''C''"
  "capital CHR ''v'' = CHR ''V''"
  "capital CHR ''p'' = CHR ''P''"
  "capital CHR ''l'' = CHR ''L''"
  "capital CHR ''a'' = CHR ''A''"
  "capital CHR ''s'' = CHR ''S''"
  "capital CHR ''w'' = CHR ''W''"
  by code_simp+

lemma declarations_agree:
  "map (\<lambda>(t, n). (hlsl_of_cpp t, hlsl_name n)) Common_h_PerFrameConstants = Common_hlsli_PerFrameConstants"
  by (simp add: Common_h_PerFrameConstants_def Common_hlsli_PerFrameConstants_def hlsl_name_def capital_simps)

lemma read_floats_numeral:
  "read_floats ofs (numeral k) b = b ofs # read_floats (ofs + 4) (pred_numeral k) b"
  by (simp add: numeral_eq_Suc)

lemma cbuffer_roundtrip:
  "cbuffer_read (struct_image c) = map (\<lambda>(n, vs). (hlsl_name n, map Some vs)) (PerFrameConstants_members c)"
  unfolding cbuffer_read_def struct_image_def cpp_table hlsl_table
  by (simp add: PerFrameConstants_members_def hlsl_name_def capital_simps
      floats_of_CMatrix4x4_def floats_of_CVector3_def floats_of_CVector2_def read_floats_numeral)

text \<open>
  C9. \<^verbatim>\<open>struct PerFrameConstants\<close> and \<^verbatim>\<open>cbuffer PerFrameConstants\<close> declare the same
  members in the same order, each C++ type with its HLSL type and each C++ name with its
  HLSL name, the three padding members among them; the C++ layout and the HLSL packing
  put every member at the same byte offset with the same size; no two members share a
  byte; and each variable of the constant buffer reads, from the image of the structure,
  exactly the floats of its member, every one of them written.
\<close>

theorem PerFrameConstants_layout_roundtrip:
  "map (\<lambda>(t, n). (hlsl_of_cpp t, hlsl_name n)) Common_h_PerFrameConstants = Common_hlsli_PerFrameConstants
   \<and> map snd (cpp_layout 0 Common_h_PerFrameConstants) = map snd (hlsl_layout 0 Common_hlsli_PerFrameConstants)
   \<and> no_collision (cpp_layout 0 Common_h_PerFrameConstants)
   \<and> no_collision (hlsl_layout 0 Common_hlsli_PerFrameConstants)
   \<and> map fst (PerFrameConstants_members c) = map snd Common_h_PerFrameConstants
   \<and> cbuffer_read (struct_image c) = map (\<lambda>(n, vs). (hlsl_name n, map Some vs)) (PerFrameConstants_members c)"
proof -
  have offsets: "map snd (cpp_layout 0 Common_h_PerFrameConstants) = map snd (hlsl_layout 0 Common_hlsli_PerFrameConstants)"
    unfolding cpp_table hlsl_table by simp
  have apart: "no_collision (cpp_layout 0 Common_h_PerFrameConstants)"
      "no_collision (hlsl_layout 0 Common_hlsli_PerFrameConstants)"
    unfolding cpp_table hlsl_table by (simp_all add: no_collision_def)
  have names: "map fst (PerFrameConstants_members c) = map snd Common_h_PerFrameConstants"
    by (simp add: PerFrameConstants_members_def Common_h_PerFrameConstants_def)
  from declarations_agree offsets apart names cbuffer_roundtrip show ?thesis
    by simp
qed

end
